theory Spec2Isabelle
  imports
    Main
    "HOL-Library.Char_ord"
    "HOL-Library.List_Lexorder"
    "HOL-Library.Option_ord"
    "HOL-Library.Product_Lexorder"
begin

section \<open>Skip+ references\<close>

text \<open>
  The development embeds \<^verbatim>\<open>src/vaud/skip.py\<close>. The module \<^verbatim>\<open>vaud.core\<close>
  (NodeReference, PseudoNodeReference, Node, NodeFactory, the remote call machinery) is
  not part of the sources; what is taken from it is marked where it is used.
\<close>

subsection \<open>The class SkipNodeReference and its rs property\<close>

text \<open>
  Python exceptions that the embedded code can raise: the getter of the \<^verbatim>\<open>rs\<close> property
  raises AttributeError when no bit string is stored (the spec's error kind MissingRs),
  \<^verbatim>\<open>max\<close> of an empty collection raises ValueError, \<^verbatim>\<open>xs[-1]\<close> on an empty list
  raises IndexError, a dict lookup of an absent key raises KeyError.
\<close>

datatype error = AttributeError | ValueError | IndexError | KeyError

text \<open>
  What an attribute of a reference can evaluate to: a bit string, or the remote invocation
  of a method name on the node behind the reference.
\<close>

datatype attribute = BitString "bool list" | RemoteMethod string

text \<open>
  The object as the constructor builds it: host and port default to None, and so does
  the private slot \<^verbatim>\<open>_rs\<close>, which holds whatever was passed or assigned.
\<close>

record SkipNodeReference_object =
  obj_host :: "string option"
  obj_port :: "nat option"
  rs_slot :: "attribute option"

definition SkipNodeReference_init ::
    "string option \<Rightarrow> nat option \<Rightarrow> attribute option \<Rightarrow> SkipNodeReference_object" where
  "SkipNodeReference_init h p r = \<lparr>obj_host = h, obj_port = p, rs_slot = r\<rparr>"

text \<open>
  The body of the property getter: it raises when the slot is None and returns the slot
  otherwise.
\<close>

definition rs_get :: "SkipNodeReference_object \<Rightarrow> error + attribute" where
  "rs_get v = (case rs_slot v of None \<Rightarrow> Inl AttributeError | Some r \<Rightarrow> Inr r)"

text \<open>
  Modelled from the spec: the attribute lookup of NodeReference (\<^verbatim>\<open>__getattr__\<close> in
  \<^verbatim>\<open>vaud.core\<close>, which is missing). By the spec a reference exposes, for every method
  name that has been registered as remote, an asynchronous invocation of that method; the
  names are kept in a process-wide set. Any other name is an AttributeError. The sources
  use the lookup in this way: the factory calls \<^verbatim>\<open>rs()\<close> on a plain NodeReference.
\<close>

definition NodeReference_getattr ::
    "string set \<Rightarrow> string \<Rightarrow> SkipNodeReference_object \<Rightarrow> error + attribute" where
  "NodeReference_getattr methodNames name v =
     (if name \<in> methodNames then Inr (RemoteMethod name) else Inl AttributeError)"

text \<open>
  The method names that \<^verbatim>\<open>skip.py\<close> registers with the \<^verbatim>\<open>remoteMethod\<close> decorator.
\<close>

definition skip_methodNames :: "string set" where
  "skip_methodNames = {''rs'', ''linearise''}"

text \<open>
  Reading the attribute \<^verbatim>\<open>v.rs\<close>. Python finds the property on the class and runs its
  getter; when a getter raises AttributeError, Python hands the lookup to the
  \<^verbatim>\<open>__getattr__\<close> of the class, here the one inherited from NodeReference, which is the
  argument \<open>getattr\<close>.
\<close>

definition rs_access ::
    "(string \<Rightarrow> SkipNodeReference_object \<Rightarrow> error + attribute) \<Rightarrow> SkipNodeReference_object
       \<Rightarrow> error + attribute" where
  "rs_access getattr v =
     (case rs_get v of
        Inr r \<Rightarrow> Inr r
      | Inl e \<Rightarrow> (if e = AttributeError then getattr ''rs'' v else Inl e))"

text \<open>The property setter.\<close>

definition rs_set :: "SkipNodeReference_object \<Rightarrow> attribute \<Rightarrow> SkipNodeReference_object" where
  "rs_set v r = v\<lparr>rs_slot := Some r\<rparr>"

text \<open>
  Serialisation: \<^verbatim>\<open>getStateToCopy\<close> reads the attribute \<^verbatim>\<open>self.rs\<close>,
  \<^verbatim>\<open>setCopyableState\<close> stores what arrived. The state of the superclass is taken to be
  host and port.
\<close>

definition getStateToCopy ::
    "(string \<Rightarrow> SkipNodeReference_object \<Rightarrow> error + attribute) \<Rightarrow> SkipNodeReference_object
       \<Rightarrow> error + ((string option \<times> nat option) \<times> attribute)" where
  "getStateToCopy getattr v =
     (case rs_access getattr v of
        Inl e \<Rightarrow> Inl e
      | Inr r \<Rightarrow> Inr ((obj_host v, obj_port v), r))"

definition setCopyableState ::
    "SkipNodeReference_object \<Rightarrow> (string option \<times> nat option) \<times> attribute
       \<Rightarrow> SkipNodeReference_object" where
  "setCopyableState v state =
     (case state of ((h, p), r) \<Rightarrow> v\<lparr>obj_host := h, obj_port := p, rs_slot := Some r\<rparr>)"

subsection \<open>References that carry a bit string\<close>

text \<open>
  Every reference the protocol handles carries its bit string: a node builds its own
  reference with the string it drew, the factory builds the entry reference from the
  string it fetched, and the calls between nodes pass on copies of these. The protocol
  functions below are embedded over such references, so \<^verbatim>\<open>v.rs\<close> is a field.
\<close>

datatype SkipNodeReference =
  SkipNodeReference (host: "string option") (port: "nat option") (rs: "bool list")

text \<open>
  Modelled from the spec: the comparison operators of NodeReference and
  PseudoNodeReference live in \<^verbatim>\<open>vaud.core\<close>, which is missing. The spec says that
  two references are equal iff host, port and rs are equal, that references are ordered by
  rs (bit strings compare lexicographically, most significant bit first), and that the
  sentinels compare strictly below and above every real reference. The spec leaves
  references of equal rs unordered; here host and port decide between them, which makes
  the order linear.
\<close>

definition order_key :: "SkipNodeReference \<Rightarrow> bool list \<times> string option \<times> nat option" where
  "order_key v = (rs v, host v, port v)"

instantiation SkipNodeReference :: linorder
begin

definition less_eq_SkipNodeReference :: "SkipNodeReference \<Rightarrow> SkipNodeReference \<Rightarrow> bool" where
  "less_eq_SkipNodeReference v w \<longleftrightarrow> order_key v \<le> order_key w"

definition less_SkipNodeReference :: "SkipNodeReference \<Rightarrow> SkipNodeReference \<Rightarrow> bool" where
  "less_SkipNodeReference v w \<longleftrightarrow> order_key v < order_key w"

instance
proof
  fix x y z :: SkipNodeReference
  show "(x < y) = (x \<le> y \<and> \<not> y \<le> x)"
    unfolding less_eq_SkipNodeReference_def less_SkipNodeReference_def by (rule less_le_not_le)
  show "x \<le> x"
    unfolding less_eq_SkipNodeReference_def by simp
  show "x \<le> y \<Longrightarrow> y \<le> z \<Longrightarrow> x \<le> z"
    unfolding less_eq_SkipNodeReference_def by (rule order_trans)
  show "x = y" if "x \<le> y" and "y \<le> x"
  proof -
    from that have "order_key x = order_key y"
      unfolding less_eq_SkipNodeReference_def by (rule antisym)
    then show ?thesis
      by (cases x, cases y) (simp add: order_key_def)
  qed
  show "x \<le> y \<or> y \<le> x"
    unfolding less_eq_SkipNodeReference_def by (rule linear)
qed

end

text \<open>
  \<^verbatim>\<open>lowest\<close> and \<^verbatim>\<open>highest\<close> are PseudoNodeReference objects; \<^verbatim>\<open>pred\<close>,
  \<^verbatim>\<open>succ\<close>, \<^verbatim>\<open>low\<close> and \<^verbatim>\<open>high\<close> return either a sentinel or a real reference.
\<close>

datatype Reference = lowest | Ref SkipNodeReference | highest

text \<open>
  Modelled from the spec: the comparison of a PseudoNodeReference with a reference is part
  of \<^verbatim>\<open>vaud.core\<close>, which is missing. By the spec \<open>lowest\<close> compares strictly below and
  \<open>highest\<close> strictly above every real reference.
\<close>

instantiation Reference :: linorder
begin

fun less_eq_Reference :: "Reference \<Rightarrow> Reference \<Rightarrow> bool" where
  "less_eq_Reference lowest _ = True"
| "less_eq_Reference _ highest = True"
| "less_eq_Reference (Ref v) (Ref w) = (v \<le> w)"
| "less_eq_Reference _ _ = False"

definition less_Reference :: "Reference \<Rightarrow> Reference \<Rightarrow> bool" where
  "less_Reference a b \<longleftrightarrow> a \<le> b \<and> \<not> b \<le> a"

instance
proof
  fix x y z :: Reference
  show "(x < y) = (x \<le> y \<and> \<not> y \<le> x)"
    by (simp add: less_Reference_def)
  show "x \<le> x"
    by (cases x) simp_all
  show "x \<le> y \<Longrightarrow> y \<le> z \<Longrightarrow> x \<le> z"
    by (cases x; cases y; cases z) auto
  show "x \<le> y \<Longrightarrow> y \<le> x \<Longrightarrow> x = y"
    by (cases x; cases y) auto
  show "x \<le> y \<or> y \<le> x"
    by (cases x; cases y) auto
qed

end

section \<open>General skip helper functions\<close>

definition RS_BYTE_LENGTH :: nat where
  "RS_BYTE_LENGTH = 2"

definition RS_BIT_LENGTH :: nat where
  "RS_BIT_LENGTH = RS_BYTE_LENGTH * 8"

text \<open>\<^verbatim>\<open>v.rs.copy()[:i]\<close>: the first \<open>i\<close> bits.\<close>

definition prefix :: "nat \<Rightarrow> SkipNodeReference \<Rightarrow> bool list" where
  "prefix i v = take i (rs v)"

text \<open>
  \<^verbatim>\<open>max([w for w in W if w < v] + [lowest])\<close>. Python's \<^verbatim>\<open>max\<close> of a list returns
  its greatest element; in a linear order that is the maximum of the set of its elements.
\<close>

definition pred :: "SkipNodeReference \<Rightarrow> SkipNodeReference set \<Rightarrow> Reference" where
  "pred v W = Max (insert lowest (Ref ` {w \<in> W. w < v}))"

text \<open>
  \<^verbatim>\<open>min([w for w in W if w > v] + [highest])\<close>. The source first replaces an empty
  \<open>W\<close> by an empty list, which changes nothing in the comprehension.
\<close>

definition succ :: "SkipNodeReference \<Rightarrow> SkipNodeReference set \<Rightarrow> Reference" where
  "succ v W = Min (insert highest (Ref ` {w \<in> W. w > v}))"

text \<open>\<^verbatim>\<open>_levelNodes\<close>: the neighbours whose first \<open>i + 1\<close> bits are \<open>prefix i v\<close> and then \<open>x\<close>.\<close>

definition levelNodes ::
    "nat \<Rightarrow> SkipNodeReference \<Rightarrow> bool \<Rightarrow> SkipNodeReference set \<Rightarrow> SkipNodeReference set" where
  "levelNodes i v x N =
     (let pref = prefix i v @ [x]
      in {w \<in> N. prefix (i + 1) w = pref})"

definition levelPred ::
    "nat \<Rightarrow> SkipNodeReference \<Rightarrow> bool \<Rightarrow> SkipNodeReference set \<Rightarrow> Reference" where
  "levelPred i v x N = pred v (levelNodes i v x N)"

definition levelSucc ::
    "nat \<Rightarrow> SkipNodeReference \<Rightarrow> bool \<Rightarrow> SkipNodeReference set \<Rightarrow> Reference" where
  "levelSucc i v x N = succ v (levelNodes i v x N)"

text \<open>
  Python's two-argument \<^verbatim>\<open>min(a, b)\<close> returns \<open>a\<close> unless \<open>b < a\<close>, and
  \<^verbatim>\<open>max(a, b)\<close> returns \<open>a\<close> unless \<open>b > a\<close>.
\<close>

definition py_min2 :: "Reference \<Rightarrow> Reference \<Rightarrow> Reference" where
  "py_min2 a b = (if b < a then b else a)"

definition py_max2 :: "Reference \<Rightarrow> Reference \<Rightarrow> Reference" where
  "py_max2 a b = (if b > a then b else a)"

text \<open>The source passes the bit \<open>x\<close> as 0 and 1.\<close>

definition low :: "nat \<Rightarrow> SkipNodeReference \<Rightarrow> SkipNodeReference set \<Rightarrow> Reference" where
  "low i v N = py_min2 (levelPred i v False N) (levelPred i v True N)"

definition high :: "nat \<Rightarrow> SkipNodeReference \<Rightarrow> SkipNodeReference set \<Rightarrow> Reference" where
  "high i v N = py_max2 (levelSucc i v False N) (levelSucc i v True N)"

definition skipRange ::
    "nat \<Rightarrow> SkipNodeReference \<Rightarrow> SkipNodeReference set \<Rightarrow> SkipNodeReference set" where
  "skipRange i v N =
     (let vPrefix = prefix i v;
          l = low i v N;
          h = high i v N
      in {w \<in> N. prefix i w = vPrefix \<and> l \<le> Ref w \<and> Ref w \<le> h})"

text \<open>
  The while loop of \<^verbatim>\<open>commonPrefixLength\<close>, with its counter \<open>i\<close>.
\<close>

function commonPrefixLength_loop :: "nat \<Rightarrow> bool list \<Rightarrow> bool list \<Rightarrow> nat" where
  "commonPrefixLength_loop i v w =
     (if i < min (length v) (length w) \<and> v ! i = w ! i
      then commonPrefixLength_loop (i + 1) v w
      else i)"
  by pat_completeness auto
termination
  by (relation "measure (\<lambda>(i, v, w). min (length v) (length w) - i)") auto

definition commonPrefixLength :: "bool list \<Rightarrow> bool list \<Rightarrow> nat" where
  "commonPrefixLength v w = commonPrefixLength_loop 0 v w"

text \<open>
  Python's \<^verbatim>\<open>max(W, key=f)\<close>: it raises ValueError on an empty \<open>W\<close>; otherwise it
  walks \<open>W\<close> in iteration order and replaces the best element so far only by one with a
  strictly greater key, so the first element that attains the greatest key is returned.
  The set \<open>W\<close> is given as the list of its elements in the order Python iterates it.
\<close>

fun py_max_key_loop :: "('a \<Rightarrow> nat) \<Rightarrow> 'a \<Rightarrow> 'a list \<Rightarrow> 'a" where
  "py_max_key_loop key best [] = best"
| "py_max_key_loop key best (x # xs) =
     py_max_key_loop key (if key x > key best then x else best) xs"

definition py_max_key :: "('a \<Rightarrow> nat) \<Rightarrow> 'a list \<Rightarrow> error + 'a" where
  "py_max_key key W = (case W of [] \<Rightarrow> Inl ValueError | x # xs \<Rightarrow> Inr (py_max_key_loop key x xs))"

definition longestCommonPrefixNode ::
    "SkipNodeReference \<Rightarrow> SkipNodeReference list \<Rightarrow> error + SkipNodeReference" where
  "longestCommonPrefixNode w W = py_max_key (\<lambda>x. commonPrefixLength (rs x) (rs w)) W"

section \<open>The Skip+ node\<close>

text \<open>
  The fields of a SkipNode that the protocol reads and writes. \<^verbatim>\<open>_rs\<close> is the bit
  string of \<^verbatim>\<open>reference\<close>. \<^verbatim>\<open>_ranges\<close> is a dict from levels to sets.
\<close>

record SkipNode =
  reference :: SkipNodeReference
  N :: "SkipNodeReference set"
  ranges :: "nat \<rightharpoonup> SkipNodeReference set"
  nodesInRanges :: "SkipNodeReference set"

text \<open>
  The constructor. The host comes from the reference that the constructor of Node (in
  \<^verbatim>\<open>vaud.core\<close>) made, and the bit string is drawn at random: both are arguments here.
  The dict of ranges gets the keys \<open>0, ..., RS_BIT_LENGTH - 2\<close>, each with an empty set.
\<close>

definition SkipNode_init :: "string option \<Rightarrow> nat \<Rightarrow> bool list \<Rightarrow> SkipNode" where
  "SkipNode_init h p r =
     \<lparr>reference = SkipNodeReference h (Some p) r,
      N = {},
      ranges = (\<lambda>i. if i < RS_BIT_LENGTH - 1 then Some {} else None),
      nodesInRanges = {}\<rparr>"

subsection \<open>updateRanges\<close>

text \<open>
  One round of the loop of \<^verbatim>\<open>updateRanges\<close>, on the node and the local variable
  \<^verbatim>\<open>nodesInRanges\<close>. The source calls \<^verbatim>\<open>nodesInRanges.union(currentLevelRange)\<close>, which
  builds a new set and leaves \<^verbatim>\<open>nodesInRanges\<close> as it is; the result is dropped.
\<close>

definition updateRanges_round ::
    "nat \<Rightarrow> SkipNode \<times> SkipNodeReference set \<Rightarrow> SkipNode \<times> SkipNodeReference set" where
  "updateRanges_round i = (\<lambda>(s, nodesInRanges_local).
     let currentLevelRange = skipRange i (reference s) (N s);
         s' = s\<lparr>ranges := (ranges s)(i \<mapsto> currentLevelRange)\<rparr>;
         dropped = nodesInRanges_local \<union> currentLevelRange
     in (s', nodesInRanges_local))"

definition updateRanges :: "SkipNode \<Rightarrow> SkipNode" where
  "updateRanges s =
     (case fold updateRanges_round [0..<RS_BIT_LENGTH - 1] (s, {}) of
        (s', nodesInRanges_local) \<Rightarrow> s'\<lparr>nodesInRanges := nodesInRanges_local\<rparr>)"

subsection \<open>Remote calls\<close>

text \<open>
  A method call on a reference goes to the node behind it. \<open>Linearise v u\<close> stands for
  \<^verbatim>\<open>v.linearise(u)\<close> and \<open>Introduce v u\<close> for \<^verbatim>\<open>v.introduce(u)\<close>. The model of one node
  records the calls it issues, in order; what the receiving node does with them is that
  node's own \<^verbatim>\<open>linearise\<close>.
\<close>

datatype invocation =
  Linearise SkipNodeReference SkipNodeReference
| Introduce SkipNodeReference SkipNodeReference

subsection \<open>timeout\<close>

text \<open>
  Part a for one of the two lists: \<^verbatim>\<open>for i in range(len(r)-1): r[i].linearise(r[i+1])\<close>,
  then the closest node is introduced to the node itself. The loop variable is named
  \<open>i\<close> like the level of the enclosing loop, so it overwrites the level whenever the loop
  body runs at all; the second component is the value of \<open>i\<close> afterwards.
\<close>

definition linearising ::
    "SkipNodeReference \<Rightarrow> SkipNodeReference list \<Rightarrow> nat \<Rightarrow> invocation list \<times> nat" where
  "linearising self r i =
     (map (\<lambda>k. Linearise (r ! k) (r ! (k + 1))) [0..<length r - 1]
        @ (if length r > 0 then [Linearise (last r) self] else []),
      if length r - 1 > 0 then length r - 2 else i)"

text \<open>
  Part b for one ordered pair of lists, with the value that \<open>i\<close> has when it runs.
\<close>

definition bridging ::
    "SkipNodeReference set \<Rightarrow> SkipNodeReference list \<Rightarrow> SkipNodeReference list \<Rightarrow> nat
       \<Rightarrow> invocation list" where
  "bridging NN range1 range2 i =
     (if length range2 > 0
      then (let closestRange2Node = last range2
            in map (\<lambda>v. Linearise v closestRange2Node)
                 (filter (\<lambda>v. closestRange2Node \<in> skipRange i v NN) range1))
      else [])"

text \<open>
  The body of the outer loop at level \<open>i\<close>. The two lists are filled in the iteration
  order of the set and then sorted, ascending on the left and descending on the right; the
  elements of a set are distinct, so the sorted lists do not depend on that order.
\<close>

definition timeout_level :: "SkipNode \<Rightarrow> nat \<Rightarrow> error + invocation list" where
  "timeout_level s i =
     (case ranges s i of
        None \<Rightarrow> Inl KeyError
      | Some R \<Rightarrow>
          (let leftRange = sorted_list_of_set {x \<in> R. x < reference s};
               rightRange = rev (sorted_list_of_set {x \<in> R. x > reference s})
           in case linearising (reference s) leftRange i of (cs1, i1) \<Rightarrow>
              case linearising (reference s) rightRange i1 of (cs2, i2) \<Rightarrow>
                Inr (cs1 @ cs2
                     @ bridging (N s) leftRange rightRange i2
                     @ bridging (N s) rightRange leftRange i2)))"

text \<open>
  The outer loop: the calls issued so far, and the exception that ended the loop if there
  was one.
\<close>

fun timeout_loop :: "SkipNode \<Rightarrow> nat list \<Rightarrow> invocation list \<times> error option" where
  "timeout_loop s [] = ([], None)"
| "timeout_loop s (i # levels) =
     (case timeout_level s i of
        Inl e \<Rightarrow> ([], Some e)
      | Inr cs \<Rightarrow> (case timeout_loop s levels of (cs', e) \<Rightarrow> (cs @ cs', e)))"

definition timeout :: "SkipNode \<Rightarrow> invocation list \<times> error option" where
  "timeout s = timeout_loop s [0..<RS_BIT_LENGTH - 1]"

subsection \<open>linearise\<close>

text \<open>
  The delegation loop: \<open>NL\<close> is the new neighbourhood and the second argument the
  undesirable nodes, both in the order Python iterates them.
\<close>

fun delegate ::
    "SkipNodeReference list \<Rightarrow> SkipNodeReference list \<Rightarrow> invocation list \<times> error option" where
  "delegate NL [] = ([], None)"
| "delegate NL (w # ws) =
     (case longestCommonPrefixNode w NL of
        Inl e \<Rightarrow> ([], Some e)
      | Inr delegationDestination \<Rightarrow>
          (case delegate NL ws of (cs, e) \<Rightarrow> (Linearise delegationDestination w # cs, e)))"

text \<open>
  \<open>linearise\<close> returns the node afterwards, the calls it issued and the exception it ended
  with, if any. The order in which Python iterates a set is not determined by the
  program; it is the argument \<open>iter\<close>.
\<close>

definition linearise ::
    "(SkipNodeReference set \<Rightarrow> SkipNodeReference list) \<Rightarrow> SkipNode \<Rightarrow> SkipNodeReference
       \<Rightarrow> SkipNode \<times> invocation list \<times> error option" where
  "linearise iter s u =
     (if u \<noteq> reference s \<and> u \<notin> N s
      then (let s1 = s\<lparr>N := insert u (N s)\<rparr>;
                s2 = updateRanges s1
            in if card (nodesInRanges s2) = 0
               then (s2, [], None)
               else (let undesirableNodes = N s2 - nodesInRanges s2;
                         s3 = s2\<lparr>N := nodesInRanges s2\<rparr>
                     in (s3, delegate (iter (N s3)) (iter undesirableNodes))))
      else (s, [], None))"

subsection \<open>Runs of one node\<close>

text \<open>
  The methods that can run on a node, and the node each of them leaves behind.
  \<^verbatim>\<open>timeout\<close> assigns no field of the node: what it does is the list of calls it
  issues.
\<close>

datatype event = LineariseCall SkipNodeReference | Timeout | UpdateRangesCall

fun step :: "(SkipNodeReference set \<Rightarrow> SkipNodeReference list) \<Rightarrow> SkipNode \<Rightarrow> event \<Rightarrow> SkipNode" where
  "step iter s (LineariseCall u) = fst (linearise iter s u)"
| "step iter s Timeout = s"
| "step iter s UpdateRangesCall = updateRanges s"

definition run ::
    "(SkipNodeReference set \<Rightarrow> SkipNodeReference list) \<Rightarrow> SkipNode \<Rightarrow> event list \<Rightarrow> SkipNode" where
  "run iter s es = foldl (step iter) s es"

text \<open>The states a node can be in: what the constructor builds, and what runs make of it.\<close>

inductive reachable :: "(SkipNodeReference set \<Rightarrow> SkipNodeReference list) \<Rightarrow> SkipNode \<Rightarrow> bool"
  for iter :: "SkipNodeReference set \<Rightarrow> SkipNodeReference list" where
  init: "reachable iter (SkipNode_init h p r)"
| after: "reachable iter s \<Longrightarrow> reachable iter (step iter s e)"

text \<open>\<open>linearise\<close> called \<open>k\<close> times in a row with the same argument.\<close>

fun linearise_times ::
    "(SkipNodeReference set \<Rightarrow> SkipNodeReference list) \<Rightarrow> nat \<Rightarrow> SkipNode \<Rightarrow> SkipNodeReference
       \<Rightarrow> SkipNode" where
  "linearise_times iter 0 s u = s"
| "linearise_times iter (Suc k) s u = linearise_times iter k (fst (linearise iter s u)) u"

section \<open>The factory\<close>

record SkipNodeFactory =
  startPort :: nat
  entryNodeHost :: "string option"
  entryNodePort :: "nat option"
  entryNodeReference :: "SkipNodeReference option"
  nodes :: "SkipNode list"

text \<open>
  The constructor; the list of nodes is set up empty by the constructor of NodeFactory (in
  \<^verbatim>\<open>vaud.core\<close>). The second component says whether the request for the entry node's
  bit string was sent, that is, whether \<open>gotEntryNodeRs\<close> will be called back.
\<close>

definition SkipNodeFactory_init ::
    "nat \<Rightarrow> string option \<Rightarrow> nat option \<Rightarrow> SkipNodeFactory \<times> bool" where
  "SkipNodeFactory_init sp eh ep =
     (\<lparr>startPort = sp, entryNodeHost = eh, entryNodePort = ep,
       entryNodeReference = None, nodes = []\<rparr>,
      eh \<noteq> None \<and> ep \<noteq> None)"

text \<open>
  \<^verbatim>\<open>_gotEntryNodeRs\<close>, the callback for the fetched bit string. It calls \<^verbatim>\<open>introduce\<close> on the first node,
  a method that SkipNode does not define; the call is recorded and the node is left as it
  is.
\<close>

definition gotEntryNodeRs ::
    "SkipNodeFactory \<Rightarrow> bool list \<Rightarrow> SkipNodeFactory \<times> invocation list" where
  "gotEntryNodeRs f r =
     (let e = SkipNodeReference (entryNodeHost f) (entryNodePort f) r;
          f' = f\<lparr>entryNodeReference := Some e\<rparr>
      in (f', if length (nodes f') > 0 then [Introduce (reference (nodes f' ! 0)) e] else []))"

text \<open>
  \<^verbatim>\<open>node.linearise(u)\<close> on a local node, as \<open>initNode\<close> calls it: the call is recorded,
  followed by the calls that \<open>linearise\<close> issues; an exception passes through.
\<close>

definition call_linearise ::
    "(SkipNodeReference set \<Rightarrow> SkipNodeReference list) \<Rightarrow> SkipNode \<Rightarrow> SkipNodeReference
       \<Rightarrow> error + (SkipNode \<times> invocation list)" where
  "call_linearise iter node u =
     (case linearise iter node u of
        (node', cs, None) \<Rightarrow> Inr (node', Linearise (reference node) u # cs)
      | (node', cs, Some e) \<Rightarrow> Inl e)"

text \<open>
  \<^verbatim>\<open>_initNode\<close>, with the host and the random bit string of the new node as further
  arguments (see \<open>SkipNode_init\<close>). \<^verbatim>\<open>self.nodes[-1]\<close> raises IndexError on an empty
  list.
\<close>

definition initNode ::
    "(SkipNodeReference set \<Rightarrow> SkipNodeReference list) \<Rightarrow> SkipNodeFactory
       \<Rightarrow> nat \<Rightarrow> bool \<Rightarrow> string option \<Rightarrow> bool list \<Rightarrow> error + (SkipNode \<times> invocation list)" where
  "initNode iter f p isFirstNode h r =
     (let node = SkipNode_init h p r
      in if isFirstNode
         then (case entryNodeReference f of
                 Some e \<Rightarrow> call_linearise iter node e
               | None \<Rightarrow> Inr (node, []))
         else (case nodes f of
                 [] \<Rightarrow> Inl IndexError
               | n # ns \<Rightarrow> call_linearise iter node (reference (last (n # ns)))))"

section \<open>Concrete nodes and references\<close>

text \<open>
  Five references with bit strings of sixteen bits, in ascending order
  \<open>ex_a < ex_self < ex_r1 < ex_r2 < ex_r3\<close>: \<open>ex_a\<close> and \<open>ex_self\<close> start with the bit 0,
  the other three with the bit 1.
\<close>

definition ex_a :: SkipNodeReference where
  "ex_a = SkipNodeReference (Some ''127.0.0.1'') (Some 33001)
     [False, False, False, False, False, False, False, False,
      False, False, False, False, False, False, False, False]"

definition ex_self :: SkipNodeReference where
  "ex_self = SkipNodeReference (Some ''127.0.0.1'') (Some 33000)
     [False, True, False, False, False, False, False, False,
      False, False, False, False, False, False, False, False]"

definition ex_r1 :: SkipNodeReference where
  "ex_r1 = SkipNodeReference (Some ''127.0.0.1'') (Some 33002)
     [True, False, False, False, False, False, False, False,
      False, False, False, False, False, False, False, False]"

definition ex_r2 :: SkipNodeReference where
  "ex_r2 = SkipNodeReference (Some ''127.0.0.1'') (Some 33003)
     [True, False, True, False, False, False, False, False,
      False, False, False, False, False, False, False, False]"

definition ex_r3 :: SkipNodeReference where
  "ex_r3 = SkipNodeReference (Some ''127.0.0.1'') (Some 33004)
     [True, True, False, False, False, False, False, False,
      False, False, False, False, False, False, False, False]"

text \<open>One possible iteration order of sets: ascending.\<close>

definition ex_iter :: "SkipNodeReference set \<Rightarrow> SkipNodeReference list" where
  "ex_iter = sorted_list_of_set"

text \<open>The node behind \<open>ex_self\<close>, fresh from the constructor.\<close>

definition ex_fresh :: SkipNode where
  "ex_fresh = SkipNode_init (Some ''127.0.0.1'') 33000
     [False, True, False, False, False, False, False, False,
      False, False, False, False, False, False, False, False]"

text \<open>
  The same node inside its first \<^verbatim>\<open>linearise(ex_a)\<close>, at the moment \<^verbatim>\<open>updateRanges\<close>
  is called: \<open>ex_a\<close> has just been added to the neighbourhood.
\<close>

definition ex_adding :: SkipNode where
  "ex_adding = ex_fresh\<lparr>N := {ex_a}\<rparr>"

text \<open>The node after it has been introduced to the other four references.\<close>

definition ex_node :: SkipNode where
  "ex_node = run ex_iter ex_fresh
     [LineariseCall ex_a, LineariseCall ex_r1, LineariseCall ex_r2, LineariseCall ex_r3]"

text \<open>
  A factory that was given an entry node and has not received its bit string yet, before
  and after it has created its first node.
\<close>

definition ex_factory :: SkipNodeFactory where
  "ex_factory = fst (SkipNodeFactory_init 33000 (Some ''10.0.0.2'') (Some 33000))"

definition ex_factory_one :: SkipNodeFactory where
  "ex_factory_one = ex_factory\<lparr>nodes := [ex_fresh]\<rparr>"

section \<open>Closed forms of updateRanges and linearise\<close>

lemma updateRanges_round_eq:
  "updateRanges_round i (s, X) =
     (s\<lparr>ranges := (ranges s)(i \<mapsto> skipRange i (reference s) (N s))\<rparr>, X)"
  by (simp add: updateRanges_round_def Let_def)

text \<open>The loop stores the range of every level it visits and never touches the local set.\<close>

lemma fold_updateRanges_round:
  "fold updateRanges_round xs (s, X) =
     (s\<lparr>ranges := (\<lambda>i. if i \<in> set xs then Some (skipRange i (reference s) (N s))
                          else ranges s i)\<rparr>, X)"
proof (induction xs arbitrary: s)
  case Nil
  show ?case by simp
next
  case (Cons x xs)
  let ?s = "s\<lparr>ranges := (ranges s)(x \<mapsto> skipRange x (reference s) (N s))\<rparr>"
  have "fold updateRanges_round (x # xs) (s, X) = fold updateRanges_round xs (?s, X)"
    by (simp add: updateRanges_round_eq)
  also have "\<dots> = (?s\<lparr>ranges := (\<lambda>i. if i \<in> set xs
                          then Some (skipRange i (reference ?s) (N ?s))
                          else ranges ?s i)\<rparr>, X)"
    by (rule Cons.IH)
  also have "\<dots> = (s\<lparr>ranges := (\<lambda>i. if i \<in> set (x # xs)
                          then Some (skipRange i (reference s) (N s))
                          else ranges s i)\<rparr>, X)"
    by (auto simp: fun_eq_iff)
  finally show ?case .
qed

lemma updateRanges_eq:
  "updateRanges s =
     s\<lparr>ranges := (\<lambda>i. if i < RS_BIT_LENGTH - 1 then Some (skipRange i (reference s) (N s))
                         else ranges s i),
       nodesInRanges := {}\<rparr>"
  by (simp add: updateRanges_def fold_updateRanges_round)

text \<open>
  As \<open>updateRanges\<close> leaves \<open>nodesInRanges\<close> empty, \<open>linearise\<close> always takes the branch
  that keeps the neighbourhood.
\<close>

lemma linearise_eq:
  "linearise iter s u =
     (if u \<noteq> reference s \<and> u \<notin> N s
      then (updateRanges (s\<lparr>N := insert u (N s)\<rparr>), [], None)
      else (s, [], None))"
  by (simp add: linearise_def Let_def updateRanges_eq)

lemma N_linearise:
  "N (fst (linearise iter s u)) =
     (if u \<noteq> reference s \<and> u \<notin> N s then insert u (N s) else N s)"
  by (simp add: linearise_eq updateRanges_eq)

lemma reference_linearise: "reference (fst (linearise iter s u)) = reference s"
  by (simp add: linearise_eq updateRanges_eq)

lemma skipRange_empty: "skipRange i v {} = {}"
  by (simp add: skipRange_def)

lemma not_in_skipRange: "prefix i w \<noteq> prefix i v \<Longrightarrow> w \<notin> skipRange i v NN"
  by (simp add: skipRange_def Let_def)

section \<open>Reachable states\<close>

lemma reachable_consistent:
  assumes "reachable iter s"
  shows "nodesInRanges s = {} \<and>
     ranges s = (\<lambda>i. if i < RS_BIT_LENGTH - 1
                      then Some (skipRange i (reference s) (N s)) else None)"
  using assms
proof (induction rule: reachable.induct)
  case (init h p r)
  show ?case
    by (auto simp: SkipNode_init_def skipRange_empty fun_eq_iff)
next
  case (after s e)
  then show ?case
    by (cases e) (auto simp: linearise_eq updateRanges_eq fun_eq_iff)
qed

lemma reachable_run: "reachable iter s \<Longrightarrow> reachable iter (run iter s es)"
  unfolding run_def
  by (induction es arbitrary: s) (simp_all add: reachable.after)

section \<open>Evaluation on the concrete references\<close>

lemmas ex_defs = ex_self_def ex_a_def ex_r1_def ex_r2_def ex_r3_def

lemmas order_eval =
  less_eq_SkipNodeReference_def less_SkipNodeReference_def order_key_def less_Reference_def

lemma set_filter_empty: "Set.filter P {} = {}"
  by simp

lemma set_filter_insert:
  "Set.filter P (insert a A) = (if P a then insert a (Set.filter P A) else Set.filter P A)"
  by auto

lemma levelNodes_filter:
  "levelNodes i v x NN = Set.filter (\<lambda>w. prefix (i + 1) w = prefix i v @ [x]) NN"
  by (simp add: levelNodes_def)

lemma pred_filter: "pred v W = Max (insert lowest (Ref ` Set.filter (\<lambda>w. w < v) W))"
  by (simp add: pred_def)

lemma succ_filter: "succ v W = Min (insert highest (Ref ` Set.filter (\<lambda>w. w > v) W))"
  by (simp add: succ_def)

lemma skipRange_filter:
  "skipRange i v NN =
     Set.filter
       (\<lambda>w. prefix i w = prefix i v \<and> low i v NN \<le> Ref w \<and> Ref w \<le> high i v NN) NN"
  by (simp add: skipRange_def)

lemma timeout_level_filter:
  "timeout_level s i =
     (case ranges s i of
        None \<Rightarrow> Inl KeyError
      | Some R \<Rightarrow>
          (let leftRange = sorted_list_of_set (Set.filter (\<lambda>x. x < reference s) R);
               rightRange = rev (sorted_list_of_set (Set.filter (\<lambda>x. x > reference s) R))
           in case linearising (reference s) leftRange i of (cs1, i1) \<Rightarrow>
              case linearising (reference s) rightRange i1 of (cs2, i2) \<Rightarrow>
                Inr (cs1 @ cs2
                     @ bridging (N s) leftRange rightRange i2
                     @ bridging (N s) rightRange leftRange i2)))"
  unfolding timeout_level_def Set.filter_eq ..

lemmas range_eval =
  skipRange_filter low_def high_def levelPred_def levelSucc_def levelNodes_filter
  pred_filter succ_filter py_min2_def py_max2_def prefix_def set_filter_insert set_filter_empty
  order_eval

lemma ex_order: "ex_a < ex_self" "ex_self < ex_r1" "ex_r1 < ex_r2" "ex_r2 < ex_r3"
  by (simp_all add: ex_defs order_eval)

lemma reference_ex_fresh: "reference ex_fresh = ex_self"
  by (simp add: ex_fresh_def SkipNode_init_def ex_self_def)

lemma N_ex_fresh: "N ex_fresh = {}"
  by (simp add: ex_fresh_def SkipNode_init_def)

lemma reachable_ex_fresh: "reachable iter ex_fresh"
  unfolding ex_fresh_def by (rule reachable.init)

lemma reference_ex_node: "reference ex_node = ex_self"
  by (simp add: ex_node_def run_def reference_linearise reference_ex_fresh)

lemma N_ex_node: "N ex_node = {ex_a, ex_r1, ex_r2, ex_r3}"
proof -
  have "ex_a \<noteq> ex_self" "ex_r1 \<noteq> ex_self" "ex_r2 \<noteq> ex_self" "ex_r3 \<noteq> ex_self"
    "ex_r1 \<noteq> ex_a" "ex_r2 \<noteq> ex_a" "ex_r3 \<noteq> ex_a" "ex_r2 \<noteq> ex_r1" "ex_r3 \<noteq> ex_r1"
    "ex_r3 \<noteq> ex_r2"
    by (simp_all add: ex_defs)
  then show ?thesis
    by (auto simp: ex_node_def run_def N_linearise reference_linearise reference_ex_fresh
        N_ex_fresh)
qed

lemma reachable_ex_node: "reachable ex_iter ex_node"
  unfolding ex_node_def by (rule reachable_run) (rule reachable_ex_fresh)

lemma ranges_ex_node:
  "ranges ex_node i =
     (if i < 15 then Some (skipRange i ex_self {ex_a, ex_r1, ex_r2, ex_r3}) else None)"
  using reachable_consistent [OF reachable_ex_node]
  by (simp add: reference_ex_node N_ex_node RS_BIT_LENGTH_def RS_BYTE_LENGTH_def)

lemma skipRange_0_ex_self:
  "skipRange 0 ex_self {ex_a, ex_r1, ex_r2, ex_r3} = {ex_a, ex_r1, ex_r2, ex_r3}"
  by (simp add: range_eval ex_defs del: Set.filter_eq)

lemma skipRange_1_ex_self: "skipRange (Suc 0) ex_self {ex_a, ex_r1, ex_r2, ex_r3} = {ex_a}"
  by (simp add: range_eval ex_defs del: Set.filter_eq)

lemma skipRange_ge2_ex_self:
  "2 \<le> i \<Longrightarrow> skipRange i ex_self {ex_a, ex_r1, ex_r2, ex_r3} = {}"
  by (auto simp: skipRange_def prefix_def ex_defs take_Cons')

lemma ex_r1_in_skipRange_0_ex_a: "ex_r1 \<in> skipRange 0 ex_a {ex_a, ex_r1, ex_r2, ex_r3}"
  by (simp add: range_eval ex_defs del: Set.filter_eq)

lemma ex_a_in_skipRange_0_ex_r: 
  "ex_a \<in> skipRange 0 ex_r1 {ex_a, ex_r1, ex_r2, ex_r3}"
  by (simp add: range_eval ex_defs del: Set.filter_eq)

lemma not_in_skipRange_1:
  "ex_r1 \<notin> skipRange (Suc 0) ex_a NN" "ex_a \<notin> skipRange (Suc 0) ex_r1 NN"
  "ex_a \<notin> skipRange (Suc 0) ex_r2 NN" "ex_a \<notin> skipRange (Suc 0) ex_r3 NN"
  by (rule not_in_skipRange, simp add: prefix_def ex_defs)+

lemma leftRange_0:
  "sorted_list_of_set (Set.filter (\<lambda>x. x < ex_self) {ex_a, ex_r1, ex_r2, ex_r3}) = [ex_a]"
  by (simp add: set_filter_insert set_filter_empty ex_defs order_eval del: Set.filter_eq)

lemma rightRange_0:
  "rev (sorted_list_of_set (Set.filter (\<lambda>x. ex_self < x) {ex_a, ex_r1, ex_r2, ex_r3}))
     = [ex_r3, ex_r2, ex_r1]"
  by (simp add: set_filter_insert set_filter_empty ex_defs order_eval del: Set.filter_eq)

lemma leftRange_1: "sorted_list_of_set (Set.filter (\<lambda>x. x < ex_self) {ex_a}) = [ex_a]"
  by (simp add: set_filter_insert set_filter_empty ex_defs order_eval del: Set.filter_eq)

lemma rightRange_1: "rev (sorted_list_of_set (Set.filter (\<lambda>x. ex_self < x) {ex_a})) = []"
  by (simp add: set_filter_insert set_filter_empty ex_defs order_eval del: Set.filter_eq)

lemma linearising_ex:
  "linearising ex_self [ex_a] i = ([Linearise ex_a ex_self], i)"
  "linearising ex_self [] i = ([], i)"
  "linearising ex_self [ex_r3, ex_r2, ex_r1] i =
     ([Linearise ex_r3 ex_r2, Linearise ex_r2 ex_r1, Linearise ex_r1 ex_self], Suc 0)"
  by (simp_all add: linearising_def)

lemma bridging_ex:
  "bridging NN [ex_a] [ex_r3, ex_r2, ex_r1] (Suc 0) = []"
  "bridging NN [ex_r3, ex_r2, ex_r1] [ex_a] (Suc 0) = []"
  "bridging NN xs [] i = []"
  "bridging NN [] ys i = []"
  by (simp_all add: bridging_def not_in_skipRange_1)

lemma timeout_level_0_ex_node:
  "timeout_level ex_node 0 =
     Inr [Linearise ex_a ex_self, Linearise ex_r3 ex_r2, Linearise ex_r2 ex_r1,
          Linearise ex_r1 ex_self]"
  by (simp add: timeout_level_filter ranges_ex_node skipRange_0_ex_self reference_ex_node
      N_ex_node Let_def leftRange_0 rightRange_0 linearising_ex bridging_ex
      del: Set.filter_eq)

lemma timeout_level_1_ex_node: "timeout_level ex_node (Suc 0) = Inr [Linearise ex_a ex_self]"
  by (simp add: timeout_level_filter ranges_ex_node skipRange_1_ex_self reference_ex_node
      N_ex_node Let_def leftRange_1 rightRange_1 linearising_ex bridging_ex
      del: Set.filter_eq)

lemma timeout_level_ge2_ex_node:
  "2 \<le> i \<Longrightarrow> i < 15 \<Longrightarrow> timeout_level ex_node i = Inr []"
  by (simp add: timeout_level_def ranges_ex_node skipRange_ge2_ex_self linearising_def
      bridging_def)

lemma levels_upt: "[0..<15] = [0, Suc 0, 2, 3, 4, 5, 6, 7, 8, 9, 10, 11, 12, 13, 14]"
  by (simp add: upt_rec)

lemma timeout_ex_node:
  "timeout ex_node =
     ([Linearise ex_a ex_self, Linearise ex_r3 ex_r2, Linearise ex_r2 ex_r1,
       Linearise ex_r1 ex_self, Linearise ex_a ex_self], None)"
  by (simp add: timeout_def RS_BIT_LENGTH_def RS_BYTE_LENGTH_def levels_upt
      timeout_level_0_ex_node timeout_level_1_ex_node timeout_level_ge2_ex_node)

section \<open>Helper facts for the claims\<close>

lemma linearise_noop:
  "u = reference s \<or> u \<in> N s \<Longrightarrow> linearise iter s u = (s, [], None)"
  by (auto simp: linearise_eq)

lemma linearise_known_after:
  "u = reference (fst (linearise iter s u)) \<or> u \<in> N (fst (linearise iter s u))"
  by (auto simp: linearise_eq updateRanges_eq)

lemma linearise_times_noop:
  "u = reference s \<or> u \<in> N s \<Longrightarrow> linearise_times iter k s u = s"
  by (induction k) (simp_all add: linearise_noop)

lemma N_step_mono: "N s \<subseteq> N (step iter s e)"
  by (cases e) (auto simp: N_linearise updateRanges_eq)

lemma N_foldl_step_mono: "N s \<subseteq> N (foldl (step iter) s es)"
proof (induction es arbitrary: s)
  case Nil
  show ?case by simp
next
  case (Cons e es)
  have "N s \<subseteq> N (step iter s e)"
    by (rule N_step_mono)
  also have "\<dots> \<subseteq> N (foldl (step iter) (step iter s e) es)"
    by (rule Cons.IH)
  finally show ?case by simp
qed

text \<open>
  The loop of \<open>py_max_key\<close> keeps the first element with the greatest key: if the elements
  seen so far are \<open>pre0 @ best # post0\<close>, with smaller keys before \<open>best\<close> and no greater
  keys after it, the same holds of the result for the whole list.
\<close>

lemma py_max_key_loop_first:
  assumes "\<forall>y\<in>set pre0. key y < key best" and "\<forall>y\<in>set post0. key y \<le> key best"
  shows "\<exists>pre post. pre0 @ best # post0 @ xs = pre @ py_max_key_loop key best xs # post
           \<and> (\<forall>y\<in>set pre. key y < key (py_max_key_loop key best xs))
           \<and> (\<forall>y\<in>set post. key y \<le> key (py_max_key_loop key best xs))"
  using assms
proof (induction xs arbitrary: pre0 best post0)
  case Nil
  then show ?case by auto
next
  case (Cons x xs)
  show ?case
  proof (cases "key x > key best")
    case True
    have pre: "\<forall>y\<in>set (pre0 @ best # post0). key y < key x"
      using Cons.prems True by fastforce
    have post: "\<forall>y\<in>set []. key y \<le> key x"
      by simp
    from Cons.IH [OF pre post] True show ?thesis
      by simp
  next
    case False
    have post: "\<forall>y\<in>set (post0 @ [x]). key y \<le> key best"
      using Cons.prems False by auto
    from Cons.IH [OF Cons.prems(1) post] False show ?thesis
      by simp
  qed
qed

lemma commonPrefixLength_ex:
  "commonPrefixLength (rs ex_a) (rs ex_r3) = 0"
  "commonPrefixLength (rs ex_r1) (rs ex_r3) = 1"
  "commonPrefixLength (rs ex_r2) (rs ex_r3) = 1"
  by (simp_all add: commonPrefixLength_def commonPrefixLength_loop.simps ex_defs)

lemma longestCommonPrefixNode_ex:
  "longestCommonPrefixNode ex_r3 [ex_a, ex_r1, ex_r2] = Inr ex_r1"
  "longestCommonPrefixNode ex_r3 [ex_a, ex_r2, ex_r1] = Inr ex_r2"
  by (simp_all add: longestCommonPrefixNode_def py_max_key_def commonPrefixLength_ex)

section \<open>The claims\<close>

text \<open>
  C1. The claim: \<open>updateRanges\<close> stores \<open>skipRange i self N\<close> as the range of every level
  \<open>i < 15\<close> and sets \<open>nodesInRanges\<close> to the union of all these ranges. The code stores the
  ranges, but the union is computed and dropped, so \<open>nodesInRanges\<close> is empty after every
  call. On the node \<open>ex_adding\<close>, whose neighbourhood is \<open>{ex_a}\<close>, the range of level 0
  is \<open>{ex_a}\<close> and \<open>nodesInRanges\<close> is empty all the same.
\<close>

theorem updateRanges_drops_union:
  "nodesInRanges (updateRanges s) = {}
   \<and> ranges (updateRanges ex_adding) 0 = Some {ex_a}
   \<and> nodesInRanges (updateRanges ex_adding) \<noteq> {ex_a}"
proof -
  have "skipRange 0 ex_self {ex_a} = {ex_a}"
    by (simp add: range_eval ex_defs del: Set.filter_eq)
  then show ?thesis
    by (simp add: updateRanges_eq ex_adding_def reference_ex_fresh RS_BIT_LENGTH_def
        RS_BYTE_LENGTH_def)
qed

text \<open>
  C2. The claim: at level \<open>i\<close>, \<open>timeout\<close> calls \<open>v.linearise(c)\<close> for a node \<open>v\<close> of one
  side and the closest node \<open>c\<close> of the other side exactly when \<open>c\<close> is in
  \<open>skipRange i v N\<close>, at that same level. In the code the inner loop of part a reuses the
  variable \<open>i\<close>, so part b tests the range of another level whenever a side has two or
  more nodes. On \<open>ex_node\<close> at level 0 the left side is \<open>[ex_a]\<close> and the right side
  \<open>[ex_r3, ex_r2, ex_r1]\<close>; \<open>ex_r1\<close> is the closest node on the right and lies in
  \<open>skipRange 0 ex_a N\<close>, yet the whole \<open>timeout\<close> never calls \<open>ex_a.linearise(ex_r1)\<close>:
  the test was made at level 1.
\<close>

theorem timeout_bridges_at_overwritten_level:
  "ranges ex_node 0 = Some {ex_a, ex_r1, ex_r2, ex_r3}
   \<and> ex_a < ex_self \<and> ex_self < ex_r1 \<and> ex_r1 < ex_r2 \<and> ex_r2 < ex_r3
   \<and> ex_r1 \<in> skipRange 0 ex_a (N ex_node)
   \<and> ex_r1 \<notin> skipRange 1 ex_a (N ex_node)
   \<and> timeout_level ex_node 0 =
       Inr [Linearise ex_a ex_self, Linearise ex_r3 ex_r2, Linearise ex_r2 ex_r1,
            Linearise ex_r1 ex_self]
   \<and> timeout ex_node =
       ([Linearise ex_a ex_self, Linearise ex_r3 ex_r2, Linearise ex_r2 ex_r1,
         Linearise ex_r1 ex_self, Linearise ex_a ex_self], None)"
  by (simp add: ranges_ex_node skipRange_0_ex_self ex_order N_ex_node
      ex_r1_in_skipRange_0_ex_a not_in_skipRange_1 timeout_level_0_ex_node timeout_ex_node)



text \<open>
  C4. The claim: the first local node gets \<open>linearise(entryRef)\<close> once the bit string of
  the entry node has been fetched, and every later node gets \<open>linearise(prev.reference)\<close>.
  When the bit string arrives after the first node was created, the code does neither:
  \<open>initNode\<close> finds no entry reference and issues no call, and the callback
  \<open>gotEntryNodeRs\<close> then calls \<open>introduce\<close>, not \<open>linearise\<close>, on the first node.
\<close>

theorem entry_node_is_not_linearised:
  "initNode iter ex_factory p True h r = Inr (SkipNode_init h p r, [])
   \<and> gotEntryNodeRs ex_factory_one r' =
       (ex_factory_one\<lparr>entryNodeReference :=
          Some (SkipNodeReference (Some ''10.0.0.2'') (Some 33000) r')\<rparr>,
        [Introduce ex_self (SkipNodeReference (Some ''10.0.0.2'') (Some 33000) r')])"
  by (simp add: initNode_def gotEntryNodeRs_def ex_factory_def ex_factory_one_def
      SkipNodeFactory_init_def Let_def reference_ex_fresh)

text \<open>
  C5, amended. For a non-empty \<open>W\<close>, given in the order in which Python iterates it,
  \<open>longestCommonPrefixNode w W\<close> returns an element \<open>x\<close> of \<open>W\<close> that maximises
  \<open>commonPrefixLength (rs x) (rs w)\<close>; when several elements attain the maximum, the one
  that comes first in the iteration order is returned: every element before \<open>x\<close> has a
  strictly shorter common prefix, no element after \<open>x\<close> has a longer one.
\<close>

theorem longestCommonPrefixNode_first_maximiser:
  assumes "W \<noteq> []"
  shows "\<exists>x pre post. longestCommonPrefixNode w W = Inr x \<and> W = pre @ x # post
           \<and> (\<forall>y\<in>set pre. commonPrefixLength (rs y) (rs w) < commonPrefixLength (rs x) (rs w))
           \<and> (\<forall>y\<in>set post. commonPrefixLength (rs y) (rs w) \<le> commonPrefixLength (rs x) (rs w))"
proof -
  obtain b xs where W: "W = b # xs"
    using assms by (cases W) auto
  let ?key = "\<lambda>x. commonPrefixLength (rs x) (rs w)"
  have "\<forall>y\<in>set []. ?key y < ?key b" and "\<forall>y\<in>set []. ?key y \<le> ?key b"
    by simp_all
  from py_max_key_loop_first [of "[]" ?key b "[]" xs, OF this]
  obtain pre post where split: "b # xs = pre @ py_max_key_loop ?key b xs # post"
    and before: "\<forall>y\<in>set pre. ?key y < ?key (py_max_key_loop ?key b xs)"
    and behind: "\<forall>y\<in>set post. ?key y \<le> ?key (py_max_key_loop ?key b xs)"
    by auto
  have result: "longestCommonPrefixNode w W = Inr (py_max_key_loop ?key b xs)"
    by (simp add: W longestCommonPrefixNode_def py_max_key_def)
  have "W = pre @ py_max_key_loop ?key b xs # post"
    using W split by simp
  with result before behind show ?thesis
    by blast
qed

theorem longestCommonPrefixNode_first_maximiser_witness:
  "[ex_a, ex_r1, ex_r2] \<noteq> []
   \<and> longestCommonPrefixNode ex_r3 [ex_a, ex_r1, ex_r2] = Inr ex_r1
   \<and> commonPrefixLength (rs ex_a) (rs ex_r3) < commonPrefixLength (rs ex_r1) (rs ex_r3)
   \<and> commonPrefixLength (rs ex_r2) (rs ex_r3) \<le> commonPrefixLength (rs ex_r1) (rs ex_r3)"
proof -
  have ne: "[ex_a, ex_r1, ex_r2] \<noteq> []"
    by simp
  from longestCommonPrefixNode_first_maximiser [OF ne, of ex_r3] show ?thesis
    by (simp add: longestCommonPrefixNode_ex commonPrefixLength_ex)
qed

text \<open>
  C5 as stated fails: the tie is not broken by the order on \<open>rs\<close>. \<open>ex_r1\<close> and \<open>ex_r2\<close>
  share one bit with \<open>ex_r3\<close> and \<open>ex_a\<close> shares none; of the same set, iterated in two
  orders, the result is once the smaller and once the greater of the two maximisers.
\<close>

theorem longestCommonPrefixNode_tie_counterexample:
  "set [ex_a, ex_r1, ex_r2] = set [ex_a, ex_r2, ex_r1]
   \<and> commonPrefixLength (rs ex_r1) (rs ex_r3) = commonPrefixLength (rs ex_r2) (rs ex_r3)
   \<and> commonPrefixLength (rs ex_a) (rs ex_r3) < commonPrefixLength (rs ex_r1) (rs ex_r3)
   \<and> rs ex_r1 < rs ex_r2 \<and> ex_r1 < ex_r2
   \<and> longestCommonPrefixNode ex_r3 [ex_a, ex_r1, ex_r2] = Inr ex_r1
   \<and> longestCommonPrefixNode ex_r3 [ex_a, ex_r2, ex_r1] = Inr ex_r2"
proof -
  have "rs ex_r1 < rs ex_r2"
    by (simp add: ex_defs)
  then show ?thesis
    by (auto simp: longestCommonPrefixNode_ex commonPrefixLength_ex ex_order)
qed

text \<open>
  C6. \<open>linearise\<close> is idempotent: \<open>k \<ge> 1\<close> calls with the same \<open>u\<close> leave the node in the
  state that one call leaves it in, in particular with the same neighbourhood; and when
  \<open>u\<close> is the node's own reference or already a neighbour, one call changes nothing and
  issues no call.
\<close>

theorem linearise_idempotent:
  assumes "k \<ge> 1"
  shows "N (linearise_times iter k s u) = N (fst (linearise iter s u))
       \<and> linearise_times iter k s u = fst (linearise iter s u)
       \<and> (u = reference s \<or> u \<in> N s \<longrightarrow> linearise iter s u = (s, [], None))"
proof -
  obtain j where k: "k = Suc j"
    using assms by (cases k) auto
  have "linearise_times iter j (fst (linearise iter s u)) u = fst (linearise iter s u)"
    by (rule linearise_times_noop) (rule linearise_known_after)
  then show ?thesis
    by (simp add: k linearise_noop)
qed

theorem linearise_idempotent_witness:
  "(1::nat) \<le> 3
   \<and> N (linearise_times ex_iter 3 ex_fresh ex_a) = {ex_a}
   \<and> ex_a \<in> N ex_node
   \<and> linearise ex_iter ex_node ex_a = (ex_node, [], None)"
proof -
  have k: "(1::nat) \<le> 3"
    by simp
  have "ex_a \<noteq> ex_self"
    by (simp add: ex_defs)
  with linearise_idempotent [OF k, of ex_iter ex_fresh ex_a]
    linearise_idempotent [OF k, of ex_iter ex_node ex_a]
  show ?thesis
    by (simp add: N_linearise reference_ex_fresh N_ex_fresh N_ex_node)
qed

text \<open>
  C7. In every reachable state and for every level \<open>i < 15\<close>, the dict holds a range for
  \<open>i\<close>, the range is a subset of the neighbourhood, and each of its elements \<open>w\<close> shares
  the first \<open>i\<close> bits with the node and lies between \<open>low i v N\<close> and \<open>high i v N\<close>.
\<close>

theorem ranges_invariant:
  assumes "reachable iter s" and "i < RS_BIT_LENGTH - 1"
  shows "\<exists>R. ranges s i = Some R \<and> R \<subseteq> N s
           \<and> (\<forall>w\<in>R. prefix i w = prefix i (reference s)
                 \<and> low i (reference s) (N s) \<le> Ref w
                 \<and> Ref w \<le> high i (reference s) (N s))"
proof -
  have "ranges s i = Some (skipRange i (reference s) (N s))"
    using reachable_consistent [OF assms(1)] assms(2) by simp
  then show ?thesis
    by (auto simp: skipRange_def Let_def)
qed

theorem ranges_invariant_witness:
  "reachable ex_iter ex_node \<and> Suc 0 < RS_BIT_LENGTH - 1
   \<and> ranges ex_node (Suc 0) = Some {ex_a} \<and> ex_a \<in> N ex_node
   \<and> prefix (Suc 0) ex_a = prefix (Suc 0) ex_self
   \<and> low (Suc 0) ex_self (N ex_node) \<le> Ref ex_a
   \<and> Ref ex_a \<le> high (Suc 0) ex_self (N ex_node)"
proof -
  have i: "Suc 0 < RS_BIT_LENGTH - 1"
    by (simp add: RS_BIT_LENGTH_def RS_BYTE_LENGTH_def)
  from ranges_invariant [OF reachable_ex_node i] show ?thesis
    by (auto simp: reachable_ex_node ranges_ex_node skipRange_1_ex_self reference_ex_node
        RS_BIT_LENGTH_def RS_BYTE_LENGTH_def)
qed

text \<open>
  C8. \<open>high\<close> is the maximum of the two \<open>levelSucc\<close> values and \<open>low\<close> the minimum of the
  two \<open>levelPred\<close> values. The form of the docstring of \<open>high\<close>, the maximum of the two
  \<open>levelPred\<close> values, is a different function: for \<open>ex_self\<close> with the single neighbour
  \<open>ex_a\<close> it would give \<open>ex_a\<close>, where \<open>high\<close> gives the sentinel.
\<close>

theorem high_is_max_of_levelSucc:
  "high i v NN = max (levelSucc i v False NN) (levelSucc i v True NN)
   \<and> low i v NN = min (levelPred i v False NN) (levelPred i v True NN)
   \<and> high 0 ex_self {ex_a} = highest
   \<and> max (levelPred 0 ex_self False {ex_a}) (levelPred 0 ex_self True {ex_a}) = Ref ex_a"
proof -
  have "high i v NN = max (levelSucc i v False NN) (levelSucc i v True NN)"
    by (auto simp: high_def py_max2_def max_def)
  moreover have "low i v NN = min (levelPred i v False NN) (levelPred i v True NN)"
    by (auto simp: low_def py_min2_def min_def)
  moreover have "high 0 ex_self {ex_a} = highest"
    by (simp add: range_eval ex_defs del: Set.filter_eq)
  moreover have
    "max (levelPred 0 ex_self False {ex_a}) (levelPred 0 ex_self True {ex_a}) = Ref ex_a"
    by (simp add: range_eval ex_defs del: Set.filter_eq)
  ultimately show ?thesis
    by simp
qed

text \<open>
  C9. The claim: reading the attribute \<open>rs\<close> of a reference that was built without a bit
  string fails, and reading it returns exactly the value that was given when one was
  given. The second half holds whatever the attribute lookup of NodeReference does: the
  value passed to the constructor, assigned through the property or received over the wire
  is what the access returns. The first half does not: the getter raises AttributeError, as
  its message intends, but Python hands that error to the lookup of NodeReference, and
  \<open>rs\<close> is a registered remote method name, so the access returns the remote invocation
  instead of failing, and \<open>getStateToCopy\<close> copies it.
\<close>

theorem rs_access_without_rs_does_not_fail:
  "rs_get (SkipNodeReference_init h p None) = Inl AttributeError
   \<and> rs_access (NodeReference_getattr skip_methodNames) (SkipNodeReference_init h p None)
       = Inr (RemoteMethod ''rs'')
   \<and> getStateToCopy (NodeReference_getattr skip_methodNames) (SkipNodeReference_init h p None)
       = Inr ((h, p), RemoteMethod ''rs'')
   \<and> rs_access (NodeReference_getattr (insert ''rs'' M)) (SkipNodeReference_init h p None)
       = Inr (RemoteMethod ''rs'')
   \<and> rs_access getattr (SkipNodeReference_init h p (Some r)) = Inr r
   \<and> rs_access getattr (rs_set v r) = Inr r
   \<and> rs_access getattr (setCopyableState v ((h', p'), r)) = Inr r"
  by (simp add: rs_access_def rs_get_def SkipNodeReference_init_def rs_set_def
      setCopyableState_def getStateToCopy_def NodeReference_getattr_def skip_methodNames_def)

text \<open>
  C10. No local operation removes a reference from the neighbourhood: a \<open>linearise\<close> call
  leaves a superset of the neighbourhood it found, \<open>timeout\<close> leaves the node as it is, and
  so does every sequence of both. The pruning branch of \<open>linearise\<close> never runs: the call
  issues no delegation and ends without an exception.
\<close>

theorem neighbourhood_never_shrinks:
  "N s \<subseteq> N (fst (linearise iter s u))
   \<and> step iter s Timeout = s
   \<and> N (step iter s UpdateRangesCall) = N s
   \<and> N s \<subseteq> N (run iter s es)
   \<and> snd (linearise iter s u) = ([], None)
   \<and> nodesInRanges (updateRanges s) = {}"
proof -
  have "N s \<subseteq> N (fst (linearise iter s u))"
    by (auto simp: N_linearise)
  moreover have "N s \<subseteq> N (run iter s es)"
    unfolding run_def by (rule N_foldl_step_mono)
  moreover have "snd (linearise iter s u) = ([], None)"
    by (simp add: linearise_eq)
  ultimately show ?thesis
    by (simp add: updateRanges_eq)
qed

end
